theory Spec2Isabelle
  imports Complex_Main
begin

section \<open>Data model\<close>

text \<open>
  The retrieval-augmented generation core of VaultAI: \<^verbatim>\<open>app/services/rag_service.py\<close>
  and \<^verbatim>\<open>app/services/rate_limiter.py\<close>. Python strings are modelled as \<open>string\<close>, one
  list element per character of the source string; Python floats are idealised as \<open>real\<close>;
  Python integers are \<open>int\<close>.
\<close>

text \<open>\<^verbatim>\<open>DocumentChunk\<close> of \<^verbatim>\<open>app/models/document.py\<close>: the columns the RAG service reads.
  \<^verbatim>\<open>id\<close> and \<^verbatim>\<open>document_id\<close> are stored as the text \<^verbatim>\<open>str()\<close> gives for the UUID. Nullable
  columns are options; \<^verbatim>\<open>embedding\<close> is a JSON column holding a list of floats.\<close>

record DocumentChunk =
  chunk_id :: string
  chunk_document_id :: string
  content :: string
  chunk_index :: int
  page_number :: "int option"
  embedding :: "real list option"
  token_count :: "int option"

datatype MessageRole = USER | ASSISTANT | SYSTEM

record ChatMessage =
  role :: MessageRole
  msg_content :: string

record ChatSession =
  session_id :: string
  session_document_id :: string
  context_window :: int

text \<open>The LangChain message objects \<^verbatim>\<open>build_chat_history\<close> produces.\<close>

datatype LCMessage = HumanMessage string | AIMessage string

text \<open>The citation dictionary of the single-document path, and its extension by
  \<^verbatim>\<open>document_id\<close> and \<^verbatim>\<open>document_name\<close> in the multi-document path (the name
  is the scalar of a filename query, null when no row matches).\<close>

record Citation =
  cit_chunk_id :: string
  content_snippet :: string
  cit_page_number :: "int option"
  relevance_score :: real

record MultiCitation = Citation +
  cit_document_id :: string
  document_name :: "string option"

text \<open>Exceptions of the source that the model distinguishes.\<close>

datatype error =
  ProviderError
  | ValueError
  | TypeError
  | JSONDecodeError
  | IndexError

section \<open>Python primitives\<close>

definition digit_char :: "nat \<Rightarrow> char" where
  "digit_char n = ''0123456789'' ! (n mod 10)"

fun str_nat :: "nat \<Rightarrow> string" where
  "str_nat n = (if n < 10 then [digit_char n] else str_nat (n div 10) @ [digit_char (n mod 10)])"

declare str_nat.simps [simp del]

text \<open>\<^verbatim>\<open>str(i)\<close> for an integer, as the f-strings render it.\<close>

definition str_int :: "int \<Rightarrow> string" where
  "str_int i = (if i < 0 then CHR ''-'' # str_nat (nat (- i)) else str_nat (nat i))"

text \<open>\<^verbatim>\<open>sep.join(parts)\<close>.\<close>

fun py_join :: "string \<Rightarrow> string list \<Rightarrow> string" where
  "py_join sep [] = []"
| "py_join sep [x] = x"
| "py_join sep (x # y # ys) = x @ sep @ py_join sep (y # ys)"

text \<open>\<^verbatim>\<open>xs[:k]\<close>: a negative bound counts from the end.\<close>

definition py_slice_to :: "int \<Rightarrow> 'a list \<Rightarrow> 'a list" where
  "py_slice_to k xs = (if 0 \<le> k then take (nat k) xs else take (nat (int (length xs) + k)) xs)"

text \<open>\<^verbatim>\<open>xs[i:]\<close>: a negative bound counts from the end.\<close>

definition py_slice_from :: "int \<Rightarrow> 'a list \<Rightarrow> 'a list" where
  "py_slice_from i xs = (if 0 \<le> i then drop (nat i) xs else drop (nat (int (length xs) + i)) xs)"

text \<open>\<^verbatim>\<open>xs.sort(key=key, reverse=True)\<close>: descending by key, and stable (elements with
  equal keys keep their original order, also under \<^verbatim>\<open>reverse=True\<close>).\<close>

definition py_sort_reverse :: "('a \<Rightarrow> real) \<Rightarrow> 'a list \<Rightarrow> 'a list" where
  "py_sort_reverse key xs = sort_key (\<lambda>x. - key x) xs"

definition newline :: string where
  "newline = [CHR 0x0A]"

section \<open>ContextBuilder: \<^verbatim>\<open>RAGService.build_context\<close>\<close>

text \<open>\<^verbatim>\<open>AIService.count_tokens\<close>: \<^verbatim>\<open>len(text) // 4\<close>.\<close>

definition count_tokens :: "string \<Rightarrow> int" where
  "count_tokens text = int (length text) div 4"

text \<open>\<^verbatim>\<open>chunk.token_count or self.ai_service.count_tokens(chunk.content)\<close>: a null or zero
  stored count falls back to the estimate.\<close>

definition chunk_tokens :: "DocumentChunk \<Rightarrow> int" where
  "chunk_tokens chunk =
     (case token_count chunk of
        None \<Rightarrow> count_tokens (content chunk)
      | Some t \<Rightarrow> if t = 0 then count_tokens (content chunk) else t)"

text \<open>\<^verbatim>\<open>f" (Page {chunk.page_number})" if chunk.page_number else ""\<close>: a null or zero page
  gives no reference.\<close>

definition page_ref :: "DocumentChunk \<Rightarrow> string" where
  "page_ref chunk =
     (case page_number chunk of
        None \<Rightarrow> ''''
      | Some p \<Rightarrow> if p = 0 then '''' else '' (Page '' @ str_int p @ '')'')"

text \<open>\<^verbatim>\<open>f"[Source {len(citations) + 1}{page_ref}]:\n{chunk.content}"\<close>.\<close>

definition context_block :: "nat \<Rightarrow> DocumentChunk \<Rightarrow> string" where
  "context_block n chunk =
     ''[Source '' @ str_nat (n + 1) @ page_ref chunk @ '']:'' @ newline @ content chunk"

text \<open>\<^verbatim>\<open>chunk.content[:200] + "..." if len(chunk.content) > 200 else chunk.content\<close>.\<close>

definition snippet :: "string \<Rightarrow> string" where
  "snippet c = (if length c > 200 then take 200 c @ ''...'' else c)"

definition citation_of :: "DocumentChunk \<Rightarrow> real \<Rightarrow> Citation" where
  "citation_of chunk score =
     \<lparr> cit_chunk_id = chunk_id chunk,
       content_snippet = snippet (content chunk),
       cit_page_number = page_number chunk,
       relevance_score = score \<rparr>"

text \<open>The loop of \<^verbatim>\<open>build_context\<close>, with its three accumulators \<^verbatim>\<open>context_parts\<close>,
  \<^verbatim>\<open>citations\<close> and \<^verbatim>\<open>current_tokens\<close>; \<^verbatim>\<open>break\<close> returns them as they stand.\<close>

fun build_context_loop ::
  "int \<Rightarrow> (DocumentChunk \<times> real) list \<Rightarrow> string list \<Rightarrow> Citation list \<Rightarrow> int
     \<Rightarrow> string list \<times> Citation list" where
  "build_context_loop max_tokens [] context_parts citations current_tokens =
     (context_parts, citations)"
| "build_context_loop max_tokens ((chunk, score) # rest) context_parts citations current_tokens =
     (if current_tokens + chunk_tokens chunk > max_tokens then (context_parts, citations)
      else build_context_loop max_tokens rest
             (context_parts @ [context_block (length citations) chunk])
             (citations @ [citation_of chunk score])
             (current_tokens + chunk_tokens chunk))"

text \<open>\<^verbatim>\<open>max_tokens = max_tokens or self.max_context_tokens\<close>: a missing or zero argument
  takes the configured default.\<close>

definition effective_budget :: "int \<Rightarrow> int option \<Rightarrow> int" where
  "effective_budget max_context_tokens max_tokens =
     (case max_tokens of
        None \<Rightarrow> max_context_tokens
      | Some m \<Rightarrow> if m = 0 then max_context_tokens else m)"

definition build_context ::
  "int \<Rightarrow> (DocumentChunk \<times> real) list \<Rightarrow> int option \<Rightarrow> string \<times> Citation list" where
  "build_context max_context_tokens chunks max_tokens =
     (let (context_parts, citations) =
            build_context_loop (effective_budget max_context_tokens max_tokens) chunks [] [] 0
      in (py_join (newline @ newline) context_parts, citations))"

section \<open>HistoryManager: \<^verbatim>\<open>RAGService.build_chat_history\<close>\<close>

text \<open>\<^verbatim>\<open>messages[-context_window * 2:] if len(messages) > context_window * 2 else messages\<close>.\<close>

definition recent_messages :: "ChatMessage list \<Rightarrow> int \<Rightarrow> ChatMessage list" where
  "recent_messages messages cw =
     (if int (length messages) > cw * 2 then py_slice_from (- (cw * 2)) messages else messages)"

text \<open>The loop over the recent messages: a user turn becomes a \<open>HumanMessage\<close>, an assistant
  turn an \<open>AIMessage\<close>, and any other role appends nothing.\<close>

fun history_loop :: "ChatMessage list \<Rightarrow> LCMessage list \<Rightarrow> LCMessage list" where
  "history_loop [] history = history"
| "history_loop (msg # rest) history =
     (if role msg = USER then history_loop rest (history @ [HumanMessage (msg_content msg)])
      else if role msg = ASSISTANT then history_loop rest (history @ [AIMessage (msg_content msg)])
      else history_loop rest history)"

definition build_chat_history :: "ChatMessage list \<Rightarrow> int \<Rightarrow> LCMessage list" where
  "build_chat_history messages cw = history_loop (recent_messages messages cw) []"

section \<open>Retriever: \<^verbatim>\<open>cosine_similarity\<close> and \<^verbatim>\<open>retrieve_relevant_chunks\<close>\<close>

definition np_dot :: "real list \<Rightarrow> real list \<Rightarrow> real" where
  "np_dot a b = sum_list (map2 (*) a b)"

definition np_norm :: "real list \<Rightarrow> real" where
  "np_norm a = sqrt (sum_list (map (\<lambda>x. x * x) a))"

text \<open>\<^verbatim>\<open>float(np.dot(a, b) / (np.linalg.norm(a) * np.linalg.norm(b)))\<close>. \<^verbatim>\<open>np.dot\<close> raises
  \<^verbatim>\<open>ValueError\<close> on vectors of different lengths. A zero denominator does not raise in
  numpy: the quotient is \<^verbatim>\<open>nan\<close> (with a warning), modelled as \<open>None\<close>.\<close>

definition cosine_similarity :: "real list \<Rightarrow> real list \<Rightarrow> error + real option" where
  "cosine_similarity vec1 vec2 =
     (if length vec1 \<noteq> length vec2 then Inl ValueError
      else if np_norm vec1 * np_norm vec2 = 0 then Inr None
      else Inr (Some (np_dot vec1 vec2 / (np_norm vec1 * np_norm vec2))))"

text \<open>The scoring loop. \<^verbatim>\<open>if chunk.embedding\<close> skips a null and an empty embedding;
  \<^verbatim>\<open>score >= similarity_threshold\<close> is false for \<^verbatim>\<open>nan\<close>; an exception of
  \<^verbatim>\<open>cosine_similarity\<close> leaves the loop.\<close>

fun score_chunks ::
  "real list \<Rightarrow> real \<Rightarrow> DocumentChunk list \<Rightarrow> (DocumentChunk \<times> real) list
     \<Rightarrow> error + (DocumentChunk \<times> real) list" where
  "score_chunks query_embedding threshold [] scored_chunks = Inr scored_chunks"
| "score_chunks query_embedding threshold (chunk # rest) scored_chunks =
     (case embedding chunk of
        None \<Rightarrow> score_chunks query_embedding threshold rest scored_chunks
      | Some e \<Rightarrow>
          if e = [] then score_chunks query_embedding threshold rest scored_chunks
          else (case cosine_similarity query_embedding e of
                  Inl err \<Rightarrow> Inl err
                | Inr None \<Rightarrow> score_chunks query_embedding threshold rest scored_chunks
                | Inr (Some score) \<Rightarrow>
                    if score \<ge> threshold
                    then score_chunks query_embedding threshold rest (scored_chunks @ [(chunk, score)])
                    else score_chunks query_embedding threshold rest scored_chunks))"

text \<open>The ranking step of \<^verbatim>\<open>retrieve_relevant_chunks\<close>, from the chunks the database
  returned to the returned list: score, sort, cut.\<close>

definition rank_chunks ::
  "real list \<Rightarrow> DocumentChunk list \<Rightarrow> int \<Rightarrow> real
     \<Rightarrow> error + (DocumentChunk \<times> real) list" where
  "rank_chunks query_embedding chunks num_chunks threshold =
     (case score_chunks query_embedding threshold chunks [] of
        Inl err \<Rightarrow> Inl err
      | Inr scored_chunks \<Rightarrow> Inr (py_slice_to num_chunks (py_sort_reverse snd scored_chunks)))"

section \<open>Collaborators\<close>

text \<open>What the language model is asked: the question-answering prompt (with or without the
  citation guidelines, the context, the question and the chat history), the follow-up
  prompt, and the multi-document prompt.\<close>

datatype LLMRequest =
  QARequest bool string string "LCMessage list"
  | FollowUpRequest string string string
  | MultiDocRequest string string

text \<open>A parsed JSON value, as \<^verbatim>\<open>json.loads\<close> returns it.\<close>

datatype json =
  JNull
  | JBool bool
  | JNumber real
  | JString string
  | JArray "json list"
  | JObject "(string \<times> json) list"

text \<open>The collaborators of the service: the embedding provider, the chat model, the
  database queries, \<^verbatim>\<open>json.loads\<close>, and the two settings read. A provider call returns its
  value or raises. \<open>db_chunks\<close> is the result of the query for a document's chunks ordered by
  \<^verbatim>\<open>chunk_index\<close>, \<open>db_messages\<close> that of a session's messages ordered by creation time.\<close>

record Env =
  aembed_query :: "string \<Rightarrow> error + real list"
  llm_invoke :: "LLMRequest \<Rightarrow> error + string"
  db_chunks :: "string \<Rightarrow> DocumentChunk list"
  db_messages :: "string \<Rightarrow> ChatMessage list"
  db_filename :: "string \<Rightarrow> string option"
  json_loads :: "string \<Rightarrow> error + json"
  max_context_tokens :: int
  chat_model :: string

text \<open>The calls that leave the service, in order: a rate-limiter acquisition
  (\<^verbatim>\<open>wait_async\<close>), a query embedding, a chat-model invocation.\<close>

datatype Event =
  RateLimiterWait
  | EmbedQuery string
  | LLMInvoke LLMRequest

definition retrieve_relevant_chunks ::
  "Env \<Rightarrow> Event list \<Rightarrow> string \<Rightarrow> string \<Rightarrow> int \<Rightarrow> real
     \<Rightarrow> Event list \<times> (error + (DocumentChunk \<times> real) list)" where
  "retrieve_relevant_chunks env tr doc_id query num_chunks threshold =
     (let tr1 = tr @ [RateLimiterWait];
          tr2 = tr1 @ [EmbedQuery query]
      in case aembed_query env query of
           Inl err \<Rightarrow> (tr2, Inl err)
         | Inr query_embedding \<Rightarrow>
             (tr2, rank_chunks query_embedding (db_chunks env doc_id) num_chunks threshold))"

text \<open>The loop of \<^verbatim>\<open>retrieve_from_multiple_documents\<close> over the document identifiers.\<close>

fun retrieve_multi_loop ::
  "Env \<Rightarrow> Event list \<Rightarrow> string list \<Rightarrow> string \<Rightarrow> int \<Rightarrow> real
     \<Rightarrow> (DocumentChunk \<times> real \<times> string) list
     \<Rightarrow> Event list \<times> (error + (DocumentChunk \<times> real \<times> string) list)" where
  "retrieve_multi_loop env tr [] query n threshold all_chunks = (tr, Inr all_chunks)"
| "retrieve_multi_loop env tr (doc_id # rest) query n threshold all_chunks =
     (case retrieve_relevant_chunks env tr doc_id query n threshold of
        (tr1, Inl err) \<Rightarrow> (tr1, Inl err)
      | (tr1, Inr chunks) \<Rightarrow>
          retrieve_multi_loop env tr1 rest query n threshold
            (all_chunks @ map (\<lambda>(chunk, score). (chunk, score, doc_id)) chunks))"

definition retrieve_from_multiple_documents ::
  "Env \<Rightarrow> Event list \<Rightarrow> string list \<Rightarrow> string \<Rightarrow> int \<Rightarrow> real
     \<Rightarrow> Event list \<times> (error + (DocumentChunk \<times> real \<times> string) list)" where
  "retrieve_from_multiple_documents env tr document_ids query n threshold =
     (case retrieve_multi_loop env tr document_ids query n threshold [] of
        (tr1, Inl err) \<Rightarrow> (tr1, Inl err)
      | (tr1, Inr all_chunks) \<Rightarrow> (tr1, Inr (py_sort_reverse (\<lambda>x. fst (snd x)) all_chunks)))"

section \<open>AnswerOrchestrator: \<^verbatim>\<open>RAGService.answer_question\<close>\<close>

text \<open>\<^verbatim>\<open>questions[:3]\<close> on the parsed value: a list and a string can be sliced, anything else
  raises \<^verbatim>\<open>TypeError\<close>.\<close>

definition json_slice3 :: "json \<Rightarrow> error + json" where
  "json_slice3 j =
     (case j of
        JArray xs \<Rightarrow> Inr (JArray (py_slice_to 3 xs))
      | JString s \<Rightarrow> Inr (JString (py_slice_to 3 s))
      | _ \<Rightarrow> Inl TypeError)"

text \<open>\<^verbatim>\<open>_generate_follow_up_questions\<close>: the rate-limiter wait, the model call, the parse and
  the slice all sit inside \<^verbatim>\<open>try\<close>, and \<^verbatim>\<open>except Exception\<close> returns the empty list.\<close>

definition generate_follow_up_questions ::
  "Env \<Rightarrow> Event list \<Rightarrow> string \<Rightarrow> string \<Rightarrow> string \<Rightarrow> Event list \<times> json" where
  "generate_follow_up_questions env tr context question answer =
     (let request = FollowUpRequest (py_slice_to 3000 context) question answer;
          tr1 = tr @ [RateLimiterWait];
          tr2 = tr1 @ [LLMInvoke request]
      in case llm_invoke env request of
           Inl err \<Rightarrow> (tr2, JArray [])
         | Inr response_content \<Rightarrow>
             (case json_loads env response_content of
                Inl err \<Rightarrow> (tr2, JArray [])
              | Inr questions \<Rightarrow>
                  (case json_slice3 questions of
                     Inl err \<Rightarrow> (tr2, JArray [])
                   | Inr sliced \<Rightarrow> (tr2, sliced))))"

text \<open>The dictionary \<^verbatim>\<open>answer_question\<close> returns, without \<^verbatim>\<open>response_time_ms\<close> (a
  difference of two clock readings).\<close>

record AnswerResult =
  answer :: string
  citations :: "Citation list"
  suggestions :: json
  context_used :: nat
  prompt_tokens :: int
  completion_tokens :: int
  total_tokens :: int
  model_used :: string

text \<open>\<^verbatim>\<open>answer_question\<close>, from retrieval to the returned dictionary. Its parameter
  \<^verbatim>\<open>max_response_tokens\<close> is not read by the body and is left out.\<close>

definition no_context_marker :: string where
  "no_context_marker = ''No relevant context found in the document.''"

definition answer_question ::
  "Env \<Rightarrow> Event list \<Rightarrow> ChatSession \<Rightarrow> string \<Rightarrow> int \<Rightarrow> real \<Rightarrow> bool \<Rightarrow> bool
     \<Rightarrow> Event list \<times> (error + AnswerResult)" where
  "answer_question env tr session question num_context_chunks threshold
       include_citations include_suggestions =
     (case retrieve_relevant_chunks env tr (session_document_id session) question
             num_context_chunks threshold of
        (tr1, Inl err) \<Rightarrow> (tr1, Inl err)
      | (tr1, Inr relevant_chunks) \<Rightarrow>
          (let (context, cits) = build_context (max_context_tokens env) relevant_chunks None;
               messages = db_messages env (session_id session);
               chat_history = build_chat_history messages (context_window session);
               request = QARequest include_citations
                           (if context \<noteq> [] then context else no_context_marker)
                           question chat_history;
               tr2 = tr1 @ [RateLimiterWait];
               tr3 = tr2 @ [LLMInvoke request]
           in case llm_invoke env request of
                Inl err \<Rightarrow> (tr3, Inl err)
              | Inr ans \<Rightarrow>
                  (let (tr4, sugg) =
                         (if include_suggestions \<and> context \<noteq> []
                          then generate_follow_up_questions env tr3 context question ans
                          else (tr3, JArray []));
                       p_tokens = count_tokens (context @ question);
                       c_tokens = count_tokens ans
                   in (tr4, Inr \<lparr> answer = ans,
                                  citations = (if include_citations then cits else []),
                                  suggestions = sugg,
                                  context_used = length relevant_chunks,
                                  prompt_tokens = p_tokens,
                                  completion_tokens = c_tokens,
                                  total_tokens = p_tokens + c_tokens,
                                  model_used = chat_model env \<rparr>))))"

section \<open>MultiDocumentOrchestrator: \<^verbatim>\<open>RAGService.answer_multi_document_question\<close>\<close>

text \<open>How an f-string renders the filename scalar.\<close>

definition str_filename :: "string option \<Rightarrow> string" where
  "str_filename filename = (case filename of None \<Rightarrow> ''None'' | Some f \<Rightarrow> f)"

text \<open>\<^verbatim>\<open>f", Page {chunk.page_number}" if chunk.page_number else ""\<close>.\<close>

definition multi_page_ref :: "DocumentChunk \<Rightarrow> string" where
  "multi_page_ref chunk =
     (case page_number chunk of
        None \<Rightarrow> []
      | Some p \<Rightarrow> if p = 0 then [] else '', Page '' @ str_int p)"

text \<open>\<^verbatim>\<open>f"[From: {filename}{page_ref}]:\n{chunk.content}"\<close>.\<close>

definition multi_context_block :: "string option \<Rightarrow> DocumentChunk \<Rightarrow> string" where
  "multi_context_block filename chunk =
     ''[From: '' @ str_filename filename @ multi_page_ref chunk @ '']:'' @ newline @ content chunk"

text \<open>The citation dictionary of the multi-document loop; its snippet is
  \<^verbatim>\<open>chunk.content[:200] + "..."\<close>.\<close>

definition multi_citation_of ::
  "DocumentChunk \<Rightarrow> real \<Rightarrow> string \<Rightarrow> string option \<Rightarrow> MultiCitation" where
  "multi_citation_of chunk score doc_id filename =
     \<lparr> cit_chunk_id = chunk_id chunk,
       content_snippet = take 200 (content chunk) @ ''...'',
       cit_page_number = page_number chunk,
       relevance_score = score,
       cit_document_id = doc_id,
       document_name = filename \<rparr>"

fun multi_context_loop ::
  "Env \<Rightarrow> (DocumentChunk \<times> real \<times> string) list \<Rightarrow> string list \<Rightarrow> MultiCitation list
     \<Rightarrow> string list \<times> MultiCitation list" where
  "multi_context_loop env [] context_parts cits = (context_parts, cits)"
| "multi_context_loop env ((chunk, score, doc_id) # rest) context_parts cits =
     (let filename = db_filename env doc_id
      in multi_context_loop env rest
           (context_parts @ [multi_context_block filename chunk])
           (cits @ [multi_citation_of chunk score doc_id filename]))"

text \<open>The dictionary \<^verbatim>\<open>answer_multi_document_question\<close> returns, without
  \<^verbatim>\<open>response_time_ms\<close>. \<^verbatim>\<open>documents_used\<close> is a list made from a set, in no specified
  order.\<close>

record MultiAnswerResult =
  multi_answer :: string
  multi_citations :: "MultiCitation list"
  documents_used :: "string set"

text \<open>The default \<^verbatim>\<open>similarity_threshold\<close> of \<^verbatim>\<open>retrieve_from_multiple_documents\<close>, which
  \<^verbatim>\<open>answer_multi_document_question\<close> does not override.\<close>

definition default_similarity_threshold :: real where
  "default_similarity_threshold = 7 / 10"

definition answer_multi_document_question ::
  "Env \<Rightarrow> Event list \<Rightarrow> string list \<Rightarrow> string \<Rightarrow> int
     \<Rightarrow> Event list \<times> (error + MultiAnswerResult)" where
  "answer_multi_document_question env tr document_ids question num_chunks_per_doc =
     (case retrieve_from_multiple_documents env tr document_ids question num_chunks_per_doc
             default_similarity_threshold of
        (tr1, Inl err) \<Rightarrow> (tr1, Inl err)
      | (tr1, Inr all_chunks) \<Rightarrow>
          (let (context_parts, cits) = multi_context_loop env (py_slice_to 10 all_chunks) [] [];
               context = py_join (newline @ newline) context_parts;
               request = MultiDocRequest context question;
               tr2 = tr1 @ [RateLimiterWait];
               tr3 = tr2 @ [LLMInvoke request]
           in case llm_invoke env request of
                Inl err \<Rightarrow> (tr3, Inl err)
              | Inr ans \<Rightarrow>
                  (tr3, Inr \<lparr> multi_answer = ans,
                             multi_citations = cits,
                             documents_used = set (map cit_document_id cits) \<rparr>)))"

section \<open>RateLimiter: \<^verbatim>\<open>app/services/rate_limiter.py\<close>\<close>

text \<open>The limiter's fields together with the clock it reads. \<open>clock_now\<close> is the time of the
  last clock event and \<open>clock_reads\<close> counts the calls of \<^verbatim>\<open>time.time()\<close> so far. The
  environment decides how much time passes before each reading: \<open>elapsed n\<close> seconds pass
  before reading number \<open>n\<close>. Time is in seconds, as a real number.\<close>

record RateLimiter =
  requests_per_minute :: int
  request_times :: "real list"
  clock_now :: real
  clock_reads :: nat

definition window_size :: real where
  "window_size = 60"

text \<open>\<^verbatim>\<open>RateLimiter(requests_per_minute)\<close>, created when the clock shows \<open>t0\<close>.\<close>

definition new_rate_limiter :: "int \<Rightarrow> real \<Rightarrow> RateLimiter" where
  "new_rate_limiter rpm t0 =
     \<lparr> requests_per_minute = rpm, request_times = [], clock_now = t0, clock_reads = 0 \<rparr>"

text \<open>\<^verbatim>\<open>time.time()\<close>.\<close>

definition time_time :: "(nat \<Rightarrow> real) \<Rightarrow> RateLimiter \<Rightarrow> real \<times> RateLimiter" where
  "time_time elapsed rl =
     (let t = clock_now rl + elapsed (clock_reads rl)
      in (t, rl\<lparr>clock_now := t, clock_reads := clock_reads rl + 1\<rparr>))"

text \<open>\<^verbatim>\<open>time.sleep(secs)\<close> and \<^verbatim>\<open>asyncio.sleep(secs)\<close>: the requested time passes.\<close>

definition sleep :: "real \<Rightarrow> RateLimiter \<Rightarrow> RateLimiter" where
  "sleep secs rl = rl\<lparr>clock_now := clock_now rl + secs\<rparr>"

text \<open>\<^verbatim>\<open>_cleanup_old_requests\<close>: pop from the left while the head is older than the cutoff.\<close>

definition cleanup_old_requests :: "(nat \<Rightarrow> real) \<Rightarrow> RateLimiter \<Rightarrow> RateLimiter" where
  "cleanup_old_requests elapsed rl =
     (let (current_time, rl1) = time_time elapsed rl;
          cutoff_time = current_time - window_size
      in rl1\<lparr>request_times := dropWhile (\<lambda>t. t < cutoff_time) (request_times rl1)\<rparr>)"

text \<open>\<^verbatim>\<open>_get_wait_time\<close>; \<^verbatim>\<open>self._request_times[0]\<close> raises \<^verbatim>\<open>IndexError\<close> on an empty
  deque.\<close>

definition get_wait_time :: "(nat \<Rightarrow> real) \<Rightarrow> RateLimiter \<Rightarrow> error + (real \<times> RateLimiter)" where
  "get_wait_time elapsed rl =
     (let rl1 = cleanup_old_requests elapsed rl
      in if int (length (request_times rl1)) < requests_per_minute rl1 then Inr (0, rl1)
         else (case request_times rl1 of
                 [] \<Rightarrow> Inl IndexError
               | oldest_request # _ \<Rightarrow>
                   (let (t, rl2) = time_time elapsed rl1;
                        wait_time = oldest_request + window_size - t
                    in Inr (max 0 wait_time, rl2))))"

text \<open>\<^verbatim>\<open>_record_request\<close>.\<close>

definition record_request :: "(nat \<Rightarrow> real) \<Rightarrow> RateLimiter \<Rightarrow> RateLimiter" where
  "record_request elapsed rl =
     (let (t, rl1) = time_time elapsed rl
      in rl1\<lparr>request_times := request_times rl1 @ [t]\<rparr>)"

text \<open>\<^verbatim>\<open>wait_sync\<close>, run by one caller at a time (the lock is held throughout).\<close>

definition wait_sync :: "(nat \<Rightarrow> real) \<Rightarrow> RateLimiter \<Rightarrow> error + RateLimiter" where
  "wait_sync elapsed rl =
     (case get_wait_time elapsed rl of
        Inl err \<Rightarrow> Inl err
      | Inr (wait_time, rl1) \<Rightarrow>
          (let rl2 = (if wait_time > 0 then cleanup_old_requests elapsed (sleep wait_time rl1)
                      else rl1)
           in Inr (record_request elapsed rl2)))"

text \<open>\<^verbatim>\<open>wait_async\<close>, run by one caller at a time: the same steps, each state access under
  the thread lock and the whole under the async lock.\<close>

definition wait_async :: "(nat \<Rightarrow> real) \<Rightarrow> RateLimiter \<Rightarrow> error + RateLimiter" where
  "wait_async elapsed rl =
     (case get_wait_time elapsed rl of
        Inl err \<Rightarrow> Inl err
      | Inr (wait_time, rl1) \<Rightarrow>
          (let rl2 = (if wait_time > 0 then cleanup_old_requests elapsed (sleep wait_time rl1)
                      else rl1)
           in Inr (record_request elapsed rl2)))"

text \<open>A sequence of acquire calls, one after the other: \<open>True\<close> chooses \<^verbatim>\<open>wait_async\<close>,
  \<open>False\<close> \<^verbatim>\<open>wait_sync\<close>.\<close>

fun acquire_all :: "(nat \<Rightarrow> real) \<Rightarrow> bool list \<Rightarrow> RateLimiter \<Rightarrow> error + RateLimiter" where
  "acquire_all elapsed [] rl = Inr rl"
| "acquire_all elapsed (is_async # rest) rl =
     (case (if is_async then wait_async elapsed rl else wait_sync elapsed rl) of
        Inl err \<Rightarrow> Inl err
      | Inr rl1 \<Rightarrow> acquire_all elapsed rest rl1)"

text \<open>The number of recorded timestamps newer than \<open>now - 60 s\<close>.\<close>

definition requests_in_window :: "RateLimiter \<Rightarrow> nat" where
  "requests_in_window rl =
     length (filter (\<lambda>t. t > clock_now rl - window_size) (request_times rl))"

section \<open>Notions used in the statements\<close>

text \<open>The context blocks of a chunk list, numbered from \<open>n + 1\<close>.\<close>

definition numbered_blocks :: "nat \<Rightarrow> (DocumentChunk \<times> real) list \<Rightarrow> string list" where
  "numbered_blocks n chunks = map (\<lambda>(i, chunk, score). context_block i chunk) (enumerate n chunks)"

text \<open>The cumulative token count of the first \<open>m\<close> chunks.\<close>

definition tokens_upto :: "nat \<Rightarrow> (DocumentChunk \<times> real) list \<Rightarrow> int" where
  "tokens_upto m chunks = sum_list (map (\<lambda>(chunk, score). chunk_tokens chunk) (take m chunks))"

text \<open>How a replayed turn is tagged by its role.\<close>

definition replayed_turn :: "ChatMessage \<Rightarrow> LCMessage" where
  "replayed_turn msg =
     (if role msg = USER then HumanMessage (msg_content msg) else AIMessage (msg_content msg))"

text \<open>The last \<open>n\<close> elements of a list, in their order.\<close>

definition last_turns :: "nat \<Rightarrow> 'a list \<Rightarrow> 'a list" where
  "last_turns n xs = drop (length xs - n) xs"

text \<open>The number of query-embedding provider calls and of rate-limiter acquisitions among the
  calls made.\<close>

definition embed_calls :: "Event list \<Rightarrow> nat" where
  "embed_calls tr = length (filter (\<lambda>e. case e of EmbedQuery q \<Rightarrow> True | _ \<Rightarrow> False) tr)"

definition limiter_waits :: "Event list \<Rightarrow> nat" where
  "limiter_waits tr = length (filter (\<lambda>e. e = RateLimiterWait) tr)"



text \<open>The score with which a chunk qualifies for a query embedding and a threshold: it has a
  non-empty embedding whose cosine similarity to the query is a number at least the
  threshold. \<open>scored\<close> lists the qualifying chunks of a list with their scores, in the list's
  order.\<close>

definition qualifying_score :: "real list \<Rightarrow> real \<Rightarrow> DocumentChunk \<Rightarrow> real option" where
  "qualifying_score q t chunk =
     (case embedding chunk of
        None \<Rightarrow> None
      | Some e \<Rightarrow>
          if e = [] then None
          else (case cosine_similarity q e of
                  Inr (Some s) \<Rightarrow> if s \<ge> t then Some s else None
                | _ \<Rightarrow> None))"

definition scored :: "real list \<Rightarrow> real \<Rightarrow> DocumentChunk list \<Rightarrow> (DocumentChunk \<times> real) list" where
  "scored q t chunks = List.map_filter (\<lambda>c. map_option (Pair c) (qualifying_score q t c)) chunks"

text \<open>Every non-empty embedding of the list has the length of the query embedding.\<close>

definition same_dimension :: "real list \<Rightarrow> DocumentChunk list \<Rightarrow> bool" where
  "same_dimension q chunks =
     list_all (\<lambda>c. case embedding c of None \<Rightarrow> True | Some e \<Rightarrow> e = [] \<or> length e = length q) chunks"


text \<open>The state of the limiter is in order: the recorded timestamps are ascending, none lies
  in the future, and at most \<open>requests_per_minute\<close> of them are newer than \<open>now - 60 s\<close>.\<close>

definition limiter_inv :: "RateLimiter \<Rightarrow> bool" where
  "limiter_inv rl =
     (sorted (request_times rl)
      \<and> list_all (\<lambda>t. t \<le> clock_now rl) (request_times rl)
      \<and> int (requests_in_window rl) \<le> requests_per_minute rl)"

section \<open>Example inputs\<close>

text \<open>A chunk with a stored token count, and the ranked list of the context-budget example:
  token counts 50, 60 and 40.\<close>

definition tok_chunk :: "string \<Rightarrow> int \<Rightarrow> DocumentChunk" where
  "tok_chunk cid n =
     \<lparr> chunk_id = cid, chunk_document_id = ''doc-1'', content = ''text'', chunk_index = 0,
       page_number = None, embedding = Some [1, 0], token_count = Some n \<rparr>"

definition p5_chunks :: "(DocumentChunk \<times> real) list" where
  "p5_chunks =
     [(tok_chunk ''c1'' 50, 9 / 10), (tok_chunk ''c2'' 60, 8 / 10), (tok_chunk ''c3'' 40, 7 / 10)]"

text \<open>A conversation of \<open>n\<close> turns, user and assistant in alternation, numbered from 0.\<close>

definition alternating_turns :: "nat \<Rightarrow> ChatMessage list" where
  "alternating_turns n =
     map (\<lambda>i. \<lparr> role = (if even i then USER else ASSISTANT), msg_content = str_nat i \<rparr>) [0..<n]"

text \<open>A chunk with an embedding and a stored token count; an environment whose embedding
  provider answers every query with the vector \<open>(1, 0)\<close>, over a given chunk table and chat
  model; a session on document \<^verbatim>\<open>doc-1\<close>; a chat model whose follow-up call fails.\<close>

definition example_chunk :: "string \<Rightarrow> int \<Rightarrow> string \<Rightarrow> int \<Rightarrow> real list \<Rightarrow> DocumentChunk" where
  "example_chunk cid idx txt n emb =
     \<lparr> chunk_id = cid, chunk_document_id = ''doc-1'', content = txt, chunk_index = idx,
       page_number = None, embedding = Some emb, token_count = Some n \<rparr>"

definition example_env :: "(string \<Rightarrow> DocumentChunk list) \<Rightarrow> (LLMRequest \<Rightarrow> error + string) \<Rightarrow> Env" where
  "example_env chunks llm =
     \<lparr> aembed_query = (\<lambda>q. Inr [1, 0]),
       llm_invoke = llm,
       db_chunks = chunks,
       db_messages = (\<lambda>s. []),
       db_filename = (\<lambda>d. Some ''report.pdf''),
       json_loads = (\<lambda>s. Inl JSONDecodeError),
       max_context_tokens = 4000,
       chat_model = ''gemini'' \<rparr>"

definition example_session :: ChatSession where
  "example_session = \<lparr> session_id = ''s1'', session_document_id = ''doc-1'', context_window = 5 \<rparr>"

definition failing_suggestions_llm :: "LLMRequest \<Rightarrow> error + string" where
  "failing_suggestions_llm request =
     (case request of FollowUpRequest c q a \<Rightarrow> Inl ProviderError | _ \<Rightarrow> Inr ''ok'')"


definition unscorable_chunks :: "DocumentChunk list" where
  "unscorable_chunks =
     [(example_chunk ''c0'' 0 ''zero'' 1 [])\<lparr>embedding := None\<rparr>,
      example_chunk ''c1'' 1 ''one'' 1 [],
      example_chunk ''c2'' 2 ''two'' 1 [0, 0],
      example_chunk ''c3'' 3 ''three'' 1 [1, 0]]"

section \<open>Properties\<close>

subsection \<open>ContextBuilder\<close>

lemma tokens_upto_Cons: "tokens_upto (Suc m) (x # xs) = chunk_tokens (fst x) + tokens_upto m xs"
  by (simp add: tokens_upto_def case_prod_beta)

lemma build_context_loop_prefix:
  "\<exists>k\<le>length chunks.
     build_context_loop B chunks parts cits cur =
       (parts @ numbered_blocks (length cits) (take k chunks),
        cits @ map (\<lambda>(chunk, score). citation_of chunk score) (take k chunks))
     \<and> (\<forall>m<k. cur + tokens_upto (Suc m) chunks \<le> B)
     \<and> (k < length chunks \<longrightarrow> cur + tokens_upto (Suc k) chunks > B)"
proof (induction chunks arbitrary: parts cits cur)
  case Nil
  then show ?case by (simp add: numbered_blocks_def)
next
  case (Cons x rest)
  obtain chunk score where x: "x = (chunk, score)" by (cases x)
  show ?case
  proof (cases "cur + chunk_tokens chunk > B")
    case True
    then show ?thesis
      by (intro exI[of _ 0]) (simp add: x numbered_blocks_def tokens_upto_def)
  next
    case False
    let ?parts = "parts @ [context_block (length cits) chunk]"
    let ?cits = "cits @ [citation_of chunk score]"
    let ?cur = "cur + chunk_tokens chunk"
    from Cons.IH[of ?parts ?cits ?cur] obtain k where
      k: "k \<le> length rest"
      and eq: "build_context_loop B rest ?parts ?cits ?cur =
         (?parts @ numbered_blocks (length ?cits) (take k rest),
          ?cits @ map (\<lambda>(chunk, score). citation_of chunk score) (take k rest))"
      and within: "\<forall>m<k. ?cur + tokens_upto (Suc m) rest \<le> B"
      and over: "k < length rest \<longrightarrow> ?cur + tokens_upto (Suc k) rest > B"
      by blast
    have within': "\<forall>m<Suc k. cur + tokens_upto (Suc m) (x # rest) \<le> B"
    proof (intro allI impI)
      fix m assume "m < Suc k"
      show "cur + tokens_upto (Suc m) (x # rest) \<le> B"
      proof (cases m)
        case 0
        then show ?thesis using False by (simp add: tokens_upto_def x)
      next
        case (Suc j)
        then have "j < k" using \<open>m < Suc k\<close> by simp
        with within have "?cur + tokens_upto (Suc j) rest \<le> B" by blast
        then show ?thesis by (simp add: Suc tokens_upto_Cons x)
      qed
    qed
    have over': "Suc k < length (x # rest) \<longrightarrow> cur + tokens_upto (Suc (Suc k)) (x # rest) > B"
      using over by (simp add: tokens_upto_Cons x add.assoc)
    have eq': "build_context_loop B (x # rest) parts cits cur =
       (parts @ numbered_blocks (length cits) (take (Suc k) (x # rest)),
        cits @ map (\<lambda>(chunk, score). citation_of chunk score) (take (Suc k) (x # rest)))"
      using False eq by (simp add: x numbered_blocks_def enumerate_simps)
    show ?thesis
      using k eq' within' over' by (intro exI[of _ "Suc k"]) simp
  qed
qed

text \<open>
  C6. \<^verbatim>\<open>build_context\<close> is greedy by rank under the token budget \<open>B\<close> (the argument, or the
  configured default when the argument is missing or zero). With \<open>n\<close> the number of citations
  returned: the citations are those of the first \<open>n\<close> chunks, one each, and the context is
  the join of their blocks; adding each of these chunks kept the cumulative token count
  within \<open>B\<close>; if a chunk remains, adding chunk \<open>n + 1\<close> would exceed \<open>B\<close>, and nothing after
  it is included; an empty list, or a first chunk that alone exceeds \<open>B\<close>, gives the empty
  context string and no citation.
\<close>

theorem build_context_greedy_prefix:
  "let B = effective_budget dflt max_tokens;
       (context, cits) = build_context dflt chunks max_tokens;
       n = length cits
   in n \<le> length chunks
     \<and> cits = map (\<lambda>(chunk, score). citation_of chunk score) (take n chunks)
     \<and> context = py_join (newline @ newline) (numbered_blocks 0 (take n chunks))
     \<and> (\<forall>m<n. tokens_upto (Suc m) chunks \<le> B)
     \<and> (n < length chunks \<longrightarrow> tokens_upto (Suc n) chunks > B)
     \<and> (chunks = [] \<longrightarrow> context = [] \<and> cits = [])
     \<and> (chunks \<noteq> [] \<and> chunk_tokens (fst (hd chunks)) > B \<longrightarrow> context = [] \<and> cits = [])"
proof -
  define B where "B = effective_budget dflt max_tokens"
  obtain k where k: "k \<le> length chunks"
    and eq: "build_context_loop B chunks [] [] 0 =
       ([] @ numbered_blocks (length ([]::Citation list)) (take k chunks),
        [] @ map (\<lambda>(chunk, score). citation_of chunk score) (take k chunks))"
    and within: "\<forall>m<k. 0 + tokens_upto (Suc m) chunks \<le> B"
    and over: "k < length chunks \<longrightarrow> 0 + tokens_upto (Suc k) chunks > B"
    using build_context_loop_prefix[of chunks B "[]" "[]" 0] by blast
  have bc: "build_context dflt chunks max_tokens =
      (py_join (newline @ newline) (numbered_blocks 0 (take k chunks)),
       map (\<lambda>(chunk, score). citation_of chunk score) (take k chunks))"
    using eq by (simp add: build_context_def B_def)
  have first: "chunks \<noteq> [] \<and> chunk_tokens (fst (hd chunks)) > B \<longrightarrow> k = 0"
  proof (intro impI)
    assume a: "chunks \<noteq> [] \<and> chunk_tokens (fst (hd chunks)) > B"
    show "k = 0"
    proof (rule ccontr)
      assume "k \<noteq> 0"
      then have "0 < k" by simp
      with within have "tokens_upto (Suc 0) chunks \<le> B" by auto
      moreover obtain x xs where "chunks = x # xs" using a by (cases chunks) auto
      ultimately show False using a by (simp add: tokens_upto_def case_prod_beta)
    qed
  qed
  show ?thesis
    using k within over first
    by (auto simp: bc numbered_blocks_def Let_def B_def[symmetric])
qed

text \<open>The budget example: token counts 50, 60, 40 and budget 100 keep the first chunk only.\<close>

lemma p5_eval: "build_context 4000 p5_chunks (Some 100) =
   (''[Source 1]:'' @ newline @ ''text'', [citation_of (tok_chunk ''c1'' 50) (9 / 10)])"
  by (simp add: build_context_def effective_budget_def p5_chunks_def chunk_tokens_def tok_chunk_def
      context_block_def page_ref_def str_nat.simps digit_char_def)

lemma p5_tokens:
  "tokens_upto (Suc 0) p5_chunks = 50" "tokens_upto (Suc (Suc 0)) p5_chunks = 110"
  "length p5_chunks = 3"
  by (simp_all add: tokens_upto_def p5_chunks_def chunk_tokens_def tok_chunk_def)

theorem build_context_greedy_prefix_witness:
  "build_context 4000 p5_chunks (Some 100) =
     (''[Source 1]:'' @ newline @ ''text'', [citation_of (tok_chunk ''c1'' 50) (9 / 10)])
   \<and> tokens_upto (Suc 0) p5_chunks \<le> 100 \<and> tokens_upto (Suc (Suc 0)) p5_chunks > 100"
  using build_context_greedy_prefix [of 4000 "Some 100" p5_chunks]
  by (simp add: p5_eval p5_tokens effective_budget_def)

subsection \<open>HistoryManager\<close>

lemma history_loop_filter:
  "history_loop msgs history =
     history @ map replayed_turn (filter (\<lambda>m. role m \<noteq> SYSTEM) msgs)"
proof (induction msgs arbitrary: history)
  case Nil
  then show ?case by simp
next
  case (Cons m ms)
  then show ?case by (cases "role m") (simp_all add: replayed_turn_def)
qed

lemma recent_messages_last:
  assumes "1 \<le> cw"
  shows "recent_messages messages cw = last_turns (min (length messages) (nat (2 * cw))) messages"
proof (cases "int (length messages) > cw * 2")
  case True
  then have "nat (int (length messages) + - (cw * 2)) = length messages - nat (2 * cw)"
    using assms by linarith
  moreover have "min (length messages) (nat (2 * cw)) = nat (2 * cw)"
    using True assms by linarith
  ultimately show ?thesis
    using True assms by (simp add: recent_messages_def py_slice_from_def last_turns_def)
next
  case False
  then have "min (length messages) (nat (2 * cw)) = length messages"
    using assms by linarith
  then show ?thesis
    using False by (simp add: recent_messages_def last_turns_def)
qed

text \<open>
  C8. For a message list in chronological order and a window size \<open>K \<ge> 1\<close> (the range the
  session schema admits is 1 to 20), \<^verbatim>\<open>build_chat_history\<close> returns the last
  \<open>min (len, 2K)\<close> turns in their order, each tagged by its role, without the system turns.
\<close>

theorem build_chat_history_window:
  assumes "1 \<le> cw"
  shows "build_chat_history messages cw =
           map replayed_turn
             (filter (\<lambda>m. role m \<noteq> SYSTEM)
                (last_turns (min (length messages) (nat (2 * cw))) messages))"
  using assms by (simp add: build_chat_history_def history_loop_filter recent_messages_last)

text \<open>Ten alternating turns and window 2: exactly the last four turns, in order.\<close>

theorem build_chat_history_window_witness:
  "(1::int) \<le> 2 \<and>
   build_chat_history (alternating_turns 10) 2 =
     [HumanMessage ''6'', AIMessage ''7'', HumanMessage ''8'', AIMessage ''9'']"
  using build_chat_history_window [of 2 "alternating_turns 10"]
  by (simp add: alternating_turns_def upt_rec str_nat.simps digit_char_def last_turns_def
      replayed_turn_def)

subsection \<open>Evaluation on the example inputs\<close>

lemma cosine_unit: "cosine_similarity [1, 0] [1, 0] = Inr (Some 1)"
  by (simp add: cosine_similarity_def np_norm_def np_dot_def)

lemma rank_one:
  "rank_chunks [1, 0] [example_chunk cid idx txt n [1, 0]] k (7 / 10) =
     Inr (py_slice_to k [(example_chunk cid idx txt n [1, 0], 1)])"
  by (simp add: rank_chunks_def cosine_unit py_sort_reverse_def example_chunk_def)

lemma rank_two:
  "rank_chunks [1, 0] [example_chunk cid idx txt n [1, 0], example_chunk cid' idx' txt' n' [1, 0]] k (7 / 10) =
     Inr (py_slice_to k [(example_chunk cid idx txt n [1, 0], 1), (example_chunk cid' idx' txt' n' [1, 0], 1)])"
  by (simp add: rank_chunks_def cosine_unit py_sort_reverse_def example_chunk_def)

lemmas eval_defs = retrieve_from_multiple_documents_def retrieve_relevant_chunks_def
  example_env_def rank_one rank_two default_similarity_threshold_def py_sort_reverse_def
  py_slice_to_def Let_def


lemma retrieve_one:
  "retrieve_relevant_chunks (example_env (\<lambda>d. [example_chunk cid idx txt n [1, 0]]) llm)
      [] ''doc-1'' ''q'' 5 (7 / 10)
   = ([RateLimiterWait, EmbedQuery ''q''], Inr [(example_chunk cid idx txt n [1, 0], 1)])"
  by (simp add: eval_defs)

lemma build_one:
  "build_context 4000 [(example_chunk ''c1'' 0 ''abc'' 1 [1, 0], 1)] None
   = (''[Source 1]:'' @ newline @ ''abc'', [citation_of (example_chunk ''c1'' 0 ''abc'' 1 [1, 0]) 1])"
  by (simp add: build_context_def effective_budget_def chunk_tokens_def example_chunk_def
      context_block_def page_ref_def str_nat.simps digit_char_def)

subsection \<open>Citation snippets\<close>

text \<open>The single-document snippet truncates content longer than 200 characters and leaves
  shorter content unchanged; the multi-document snippet agrees with it on long content and
  appends the marker to short content.\<close>

lemma snippet_long: "length c > 200 \<Longrightarrow> snippet c = take 200 c @ ''...''"
  by (simp add: snippet_def)

lemma snippet_short: "length c \<le> 200 \<Longrightarrow> snippet c = c"
  by (simp add: snippet_def)

lemma multi_snippet_long:
  "length (content chunk) > 200 \<Longrightarrow>
     content_snippet (multi_citation_of chunk score doc_id filename) = snippet (content chunk)"
  by (simp add: multi_citation_of_def snippet_def)

lemma multi_snippet_short:
  "length (content chunk) \<le> 200 \<Longrightarrow>
     content_snippet (multi_citation_of chunk score doc_id filename) = content chunk @ ''...''"
  by (simp add: multi_citation_of_def)

text \<open>
  C3. The single-document path truncates as the claim says (\<open>snippet\<close>), but the
  multi-document path appends the ellipsis marker to every snippet: a chunk whose content is
  \<^verbatim>\<open>abc\<close>, three characters, is cited there with the snippet \<^verbatim>\<open>abc...\<close> instead of its
  content unchanged.
\<close>

theorem multi_document_snippet_short_content:
  "map_sum id (map content_snippet \<circ> multi_citations)
     (snd (answer_multi_document_question
            (example_env (\<lambda>d. [example_chunk ''c1'' 0 ''abc'' 1 [1, 0]]) (\<lambda>r. Inr ''ok''))
            [] [''doc-1''] ''q'' 3))
   = Inr [''abc...'']"
  by (simp add: answer_multi_document_question_def eval_defs multi_citation_of_def)
    (simp add: example_chunk_def)

subsection \<open>AnswerOrchestrator\<close>

text \<open>
  C1. \<^verbatim>\<open>context_used\<close> is the number of chunks retrieved, not the number that survived the
  token budget: with two retrieved chunks of 3000 tokens each and the budget of 4000, one
  chunk enters the context and one citation is produced, and \<^verbatim>\<open>context_used\<close> is 2.
\<close>

theorem context_used_counts_retrieved:
  "map_sum id (\<lambda>r. (context_used r, length (citations r)))
     (snd (answer_question
            (example_env (\<lambda>d. [example_chunk ''c1'' 0 ''abc'' 3000 [1, 0],
                               example_chunk ''c2'' 1 ''def'' 3000 [1, 0]]) (\<lambda>r. Inr ''ok''))
            [] example_session ''q'' 5 (7 / 10) True False))
   = Inr (2, 1)"
  by (simp add: answer_question_def eval_defs example_session_def build_context_def
      effective_budget_def chunk_tokens_def)
    (simp add: example_chunk_def)

text \<open>In general: the \<^verbatim>\<open>context_used\<close> of a returned answer is the length of the retrieved
  list, which is never less than the number of citations \<^verbatim>\<open>build_context\<close> makes of it.\<close>

lemma build_context_citations_le:
  "length (snd (build_context dflt chunks max_tokens)) \<le> length chunks"
proof -
  obtain k where "k \<le> length chunks"
    and "build_context_loop (effective_budget dflt max_tokens) chunks [] [] 0 =
       ([] @ numbered_blocks (length ([]::Citation list)) (take k chunks),
        [] @ map (\<lambda>(chunk, score). citation_of chunk score) (take k chunks))"
    using build_context_loop_prefix[of chunks "effective_budget dflt max_tokens" "[]" "[]" 0]
    by blast
  then show ?thesis by (simp add: build_context_def)
qed

lemma context_used_is_retrieved_count:
  assumes "snd (answer_question env tr session question k t include_citations include_suggestions)
             = Inr res"
  shows "\<exists>tr1 relevant_chunks.
           retrieve_relevant_chunks env tr (session_document_id session) question k t
             = (tr1, Inr relevant_chunks)
           \<and> context_used res = length relevant_chunks
           \<and> length (snd (build_context (max_context_tokens env) relevant_chunks None))
               \<le> context_used res"
proof -
  obtain tr1 r where ret:
    "retrieve_relevant_chunks env tr (session_document_id session) question k t = (tr1, r)"
    by (cases "retrieve_relevant_chunks env tr (session_document_id session) question k t")
  then obtain relevant_chunks where r: "r = Inr relevant_chunks"
    using assms by (cases r) (simp_all add: answer_question_def)
  have used: "context_used res = length relevant_chunks"
    using assms ret r
    by (auto simp: answer_question_def Let_def split: prod.splits sum.splits if_splits)
  show ?thesis using ret r used build_context_citations_le by simp
qed

text \<open>
  C9. With suggestions requested and a non-empty context, when retrieval and answer generation
  succeed and the follow-up call of the chat model raises, or its output does not parse, or
  the parsed value cannot be sliced, \<^verbatim>\<open>answer_question\<close> returns a result with the generated
  answer and the empty suggestion list.
\<close>

theorem suggestion_failure_is_swallowed:
  assumes "retrieve_relevant_chunks env tr (session_document_id session) question k t
             = (tr1, Inr relevant_chunks)"
    and "build_context (max_context_tokens env) relevant_chunks None = (context, cits)"
    and "context \<noteq> []"
    and "llm_invoke env
           (QARequest include_citations context question
              (build_chat_history (db_messages env (session_id session)) (context_window session)))
         = Inr ans"
    and "(\<exists>err. llm_invoke env (FollowUpRequest (py_slice_to 3000 context) question ans) = Inl err)
       \<or> (\<exists>out err. llm_invoke env (FollowUpRequest (py_slice_to 3000 context) question ans) = Inr out
                    \<and> json_loads env out = Inl err)
       \<or> (\<exists>out j err. llm_invoke env (FollowUpRequest (py_slice_to 3000 context) question ans) = Inr out
                    \<and> json_loads env out = Inr j \<and> json_slice3 j = Inl err)"
  shows "\<exists>res. snd (answer_question env tr session question k t include_citations True) = Inr res
             \<and> answer res = ans \<and> suggestions res = JArray []"
proof -
  have swallowed: "snd (generate_follow_up_questions env tr' context question ans) = JArray []" for tr'
    using assms(5) by (auto simp: generate_follow_up_questions_def Let_def)
  let ?request = "QARequest include_citations context question
      (build_chat_history (db_messages env (session_id session)) (context_window session))"
  let ?tr3 = "tr1 @ [RateLimiterWait] @ [LLMInvoke ?request]"
  obtain tr4 sugg where g:
    "generate_follow_up_questions env ?tr3 context question ans = (tr4, sugg)"
    by (cases "generate_follow_up_questions env ?tr3 context question ans")
  have "sugg = JArray []"
    using swallowed[of ?tr3] g by simp
  then show ?thesis
    using assms(1-4) g by (simp add: answer_question_def Let_def)
qed

text \<open>The follow-up call fails with a provider error; the answer is returned all the same.\<close>

theorem suggestion_failure_is_swallowed_witness:
  "map_sum id (\<lambda>res. (answer res, suggestions res))
     (snd (answer_question
        (example_env (\<lambda>d. [example_chunk ''c1'' 0 ''abc'' 1 [1, 0]]) failing_suggestions_llm)
        [] example_session ''q'' 5 (7 / 10) True True))
   = Inr (''ok'', JArray [])"
proof -
  let ?env = "example_env (\<lambda>d. [example_chunk ''c1'' 0 ''abc'' 1 [1, 0]]) failing_suggestions_llm"
  let ?ctx = "''[Source 1]:'' @ newline @ ''abc''"
  have r: "retrieve_relevant_chunks ?env [] (session_document_id example_session) ''q'' 5 (7 / 10)
      = ([RateLimiterWait, EmbedQuery ''q''], Inr [(example_chunk ''c1'' 0 ''abc'' 1 [1, 0], 1)])"
    by (simp add: example_session_def retrieve_one)
  have b: "build_context (max_context_tokens ?env) [(example_chunk ''c1'' 0 ''abc'' 1 [1, 0], 1)] None
      = (?ctx, [citation_of (example_chunk ''c1'' 0 ''abc'' 1 [1, 0]) 1])"
    using build_one by (simp add: example_env_def)
  have ne: "?ctx \<noteq> []" by simp
  have qa: "llm_invoke ?env (QARequest True ?ctx ''q''
       (build_chat_history (db_messages ?env (session_id example_session))
          (context_window example_session))) = Inr ''ok''"
    by (simp add: example_env_def failing_suggestions_llm_def)
  have fu: "(\<exists>err. llm_invoke ?env (FollowUpRequest (py_slice_to 3000 ?ctx) ''q'' ''ok'') = Inl err)
       \<or> (\<exists>out err. llm_invoke ?env (FollowUpRequest (py_slice_to 3000 ?ctx) ''q'' ''ok'') = Inr out
                    \<and> json_loads ?env out = Inl err)
       \<or> (\<exists>out j err. llm_invoke ?env (FollowUpRequest (py_slice_to 3000 ?ctx) ''q'' ''ok'') = Inr out
                    \<and> json_loads ?env out = Inr j \<and> json_slice3 j = Inl err)"
    by (simp add: example_env_def failing_suggestions_llm_def)
  from suggestion_failure_is_swallowed[OF r b ne qa fu] show ?thesis
    by auto
qed

subsection \<open>Retrieval across documents\<close>

text \<open>
  C2, as stated, fails: for two documents the query is embedded twice.
\<close>

theorem query_embedded_per_document:
  "embed_calls (fst (retrieve_from_multiple_documents
       (example_env (\<lambda>d. [example_chunk ''c1'' 0 ''abc'' 1 [1, 0]]) (\<lambda>r. Inr ''ok''))
       [] [''doc-1'', ''doc-2''] ''q'' 3 (7 / 10))) = 2"
  by (simp add: eval_defs embed_calls_def)

lemma retrieve_relevant_chunks_trace:
  "fst (retrieve_relevant_chunks env tr doc_id query k t) = tr @ [RateLimiterWait, EmbedQuery query]"
  by (simp add: retrieve_relevant_chunks_def Let_def split: sum.splits)

lemma retrieve_multi_loop_trace:
  "retrieve_multi_loop env tr docs query k t acc = (tr', Inr r) \<Longrightarrow>
     tr' = tr @ concat (map (\<lambda>d. [RateLimiterWait, EmbedQuery query]) docs)"
proof (induction docs arbitrary: tr acc)
  case Nil
  then show ?case by simp
next
  case (Cons d ds)
  obtain tr1 res where step: "retrieve_relevant_chunks env tr d query k t = (tr1, res)"
    by (cases "retrieve_relevant_chunks env tr d query k t")
  then have tr1: "tr1 = tr @ [RateLimiterWait, EmbedQuery query]"
    using retrieve_relevant_chunks_trace[of env tr d query k t] by simp
  show ?case
  proof (cases res)
    case (Inl e)
    with Cons.prems step show ?thesis by simp
  next
    case (Inr chunks)
    with Cons.prems step have
      "retrieve_multi_loop env tr1 ds query k t
         (acc @ map (\<lambda>(chunk, score). (chunk, score, d)) chunks) = (tr', Inr r)"
      by simp
    from Cons.IH[OF this] show ?thesis by (simp add: tr1)
  qed
qed

lemma embed_calls_append: "embed_calls (xs @ ys) = embed_calls xs + embed_calls ys"
  by (simp add: embed_calls_def)

lemma limiter_waits_append: "limiter_waits (xs @ ys) = limiter_waits xs + limiter_waits ys"
  by (simp add: limiter_waits_def)

lemma calls_per_document:
  "embed_calls (concat (map (\<lambda>d. [RateLimiterWait, EmbedQuery query]) docs)) = length docs"
  "limiter_waits (concat (map (\<lambda>d. [RateLimiterWait, EmbedQuery query]) docs)) = length docs"
  by (induction docs) (simp_all add: embed_calls_def limiter_waits_def)

text \<open>
  C2, amended. A call of \<^verbatim>\<open>retrieve_from_multiple_documents\<close> that returns has made, for each
  document identifier in turn, one rate-limiter acquisition followed by one query-embedding
  provider call: as many of each as there are documents. The embedding is computed anew for
  every document.
\<close>

theorem one_embedding_call_per_document:
  assumes "snd (retrieve_from_multiple_documents env tr document_ids query k t) = Inr r"
  shows "fst (retrieve_from_multiple_documents env tr document_ids query k t)
           = tr @ concat (map (\<lambda>d. [RateLimiterWait, EmbedQuery query]) document_ids)
       \<and> embed_calls (fst (retrieve_from_multiple_documents env tr document_ids query k t))
           = embed_calls tr + length document_ids
       \<and> limiter_waits (fst (retrieve_from_multiple_documents env tr document_ids query k t))
           = limiter_waits tr + length document_ids"
proof -
  obtain tr1 res where loop: "retrieve_multi_loop env tr document_ids query k t [] = (tr1, res)"
    by (cases "retrieve_multi_loop env tr document_ids query k t []")
  with assms obtain all_chunks where res: "res = Inr all_chunks"
    by (cases res) (simp_all add: retrieve_from_multiple_documents_def)
  have "tr1 = tr @ concat (map (\<lambda>d. [RateLimiterWait, EmbedQuery query]) document_ids)"
    using retrieve_multi_loop_trace loop res by blast
  moreover have "fst (retrieve_from_multiple_documents env tr document_ids query k t) = tr1"
    using loop res by (simp add: retrieve_from_multiple_documents_def)
  ultimately show ?thesis
    by (simp add: embed_calls_append limiter_waits_append calls_per_document)
qed

text \<open>Three documents: three embedding calls.\<close>

theorem one_embedding_call_per_document_witness:
  "embed_calls (fst (retrieve_from_multiple_documents
       (example_env (\<lambda>d. [example_chunk ''c1'' 0 ''abc'' 1 [1, 0]]) (\<lambda>r. Inr ''ok''))
       [] [''doc-1'', ''doc-2'', ''doc-3''] ''q'' 3 (7 / 10))) = 3"
proof -
  let ?env = "example_env (\<lambda>d. [example_chunk ''c1'' 0 ''abc'' 1 [1, 0]]) (\<lambda>r. Inr ''ok'')"
  have "\<exists>r. snd (retrieve_from_multiple_documents ?env [] [''doc-1'', ''doc-2'', ''doc-3'']
            ''q'' 3 (7 / 10)) = Inr r"
    by (simp add: eval_defs)
  then obtain r where "snd (retrieve_from_multiple_documents ?env [] [''doc-1'', ''doc-2'', ''doc-3'']
            ''q'' 3 (7 / 10)) = Inr r" ..
  from one_embedding_call_per_document[OF this] show ?thesis
    by (simp add: embed_calls_def)
qed

subsection \<open>MultiDocumentOrchestrator\<close>







subsection \<open>Retriever\<close>

lemma cosine_similarity_cases:
  "cosine_similarity a b = Inl err \<Longrightarrow> err = ValueError \<and> length a \<noteq> length b"
  "length a = length b \<Longrightarrow> \<exists>v. cosine_similarity a b = Inr v"
  by (auto simp: cosine_similarity_def split: if_splits)

lemma scored_Cons:
  "scored q t (c # cs) =
     (case qualifying_score q t c of None \<Rightarrow> scored q t cs | Some s \<Rightarrow> (c, s) # scored q t cs)"
  by (simp add: scored_def List.map_filter_simps split: option.splits)

lemma scored_Nil: "scored q t [] = []"
  by (simp add: scored_def List.map_filter_simps)

lemma score_chunks_same_dimension:
  "same_dimension q chunks \<Longrightarrow> score_chunks q t chunks acc = Inr (acc @ scored q t chunks)"
proof (induction chunks arbitrary: acc)
  case Nil
  then show ?case by (simp add: scored_Nil)
next
  case (Cons c cs)
  then have cs: "same_dimension q cs" by (simp add: same_dimension_def)
  show ?case
  proof (cases "embedding c")
    case None
    then show ?thesis using Cons.IH[OF cs] by (simp add: scored_Cons qualifying_score_def)
  next
    case (Some e)
    show ?thesis
    proof (cases "e = []")
      case True
      then show ?thesis using Some Cons.IH[OF cs] by (simp add: scored_Cons qualifying_score_def)
    next
      case False
      then have "length q = length e" using Cons.prems Some by (simp add: same_dimension_def)
      then obtain v where v: "cosine_similarity q e = Inr v"
        using cosine_similarity_cases(2) by blast
      show ?thesis
        using Some False v Cons.IH[OF cs]
        by (cases v) (simp_all add: scored_Cons qualifying_score_def)
    qed
  qed
qed

lemma score_chunks_wrong_dimension:
  "\<not> same_dimension q chunks \<Longrightarrow> score_chunks q t chunks acc = Inl ValueError"
proof (induction chunks arbitrary: acc)
  case Nil
  then show ?case by (simp add: same_dimension_def)
next
  case (Cons c cs)
  show ?case
  proof (cases "embedding c")
    case None
    then have "\<not> same_dimension q cs" using Cons.prems by (simp add: same_dimension_def)
    then show ?thesis using None Cons.IH by simp
  next
    case (Some e)
    show ?thesis
    proof (cases "e = []")
      case True
      then have "\<not> same_dimension q cs" using Cons.prems Some by (simp add: same_dimension_def)
      then show ?thesis using Some True Cons.IH by simp
    next
      case False
      show ?thesis
      proof (cases "length e = length q")
        case True
        then have "\<not> same_dimension q cs" using Cons.prems Some by (simp add: same_dimension_def)
        moreover obtain v where "cosine_similarity q e = Inr v"
          using cosine_similarity_cases(2)[of q e] True by auto
        ultimately show ?thesis using Some False Cons.IH
          by (cases v) (simp_all)
      next
        case ne: False
        then have "cosine_similarity q e = Inl ValueError"
          by (auto simp: cosine_similarity_def)
        then show ?thesis using Some False by simp
      qed
    qed
  qed
qed

lemma scored_member:
  "(c, s) \<in> set (scored q t chunks) \<longleftrightarrow> c \<in> set chunks \<and> qualifying_score q t c = Some s"
  by (induction chunks) (auto simp: scored_Cons scored_Nil split: option.splits)

lemma qualifying_scoreD:
  "qualifying_score q t c = Some s \<Longrightarrow>
     \<exists>e. embedding c = Some e \<and> e \<noteq> [] \<and> cosine_similarity q e = Inr (Some s) \<and> s \<ge> t"
  by (auto simp: qualifying_score_def split: option.splits if_splits sum.splits)





lemma py_sort_reverse_set: "set (py_sort_reverse key xs) = set xs"
  by (simp add: py_sort_reverse_def)


lemma rank_chunks_same_dimension:
  "same_dimension q chunks \<Longrightarrow>
     rank_chunks q chunks k t = Inr (py_slice_to k (py_sort_reverse snd (scored q t chunks)))"
  using score_chunks_same_dimension[of q chunks t "[]"] by (simp add: rank_chunks_def)

lemma rank_chunks_wrong_dimension:
  "\<not> same_dimension q chunks \<Longrightarrow> rank_chunks q chunks k t = Inl ValueError"
  using score_chunks_wrong_dimension[of q chunks t "[]"] by (simp add: rank_chunks_def)

lemma py_slice_to_subset: "set (py_slice_to k xs) \<subseteq> set xs"
  by (auto simp: py_slice_to_def dest: in_set_takeD)



lemma cosine_examples:
  "cosine_similarity [1, 0] [0, 1] = Inr (Some 0)"
  "cosine_similarity [1, 0] [4 / 5, 3 / 5] = Inr (Some (4 / 5))"
  "cosine_similarity [1, 0] [1, 0] = Inr (Some 1)"
  "cosine_similarity [1, 0] [0, 0] = Inr None"
  by (simp_all add: cosine_similarity_def np_norm_def np_dot_def)



text \<open>
  C10, as stated, fails: a chunk whose embedding has not the query's dimension is not
  excluded; \<^verbatim>\<open>np.dot\<close> raises and the retrieval fails with \<^verbatim>\<open>ValueError\<close>.
\<close>

theorem retrieval_raises_on_wrong_dimension:
  "snd (retrieve_relevant_chunks
          (example_env (\<lambda>d. [example_chunk ''c1'' 0 ''abc'' 1 [1]]) (\<lambda>r. Inr ''ok''))
          [] ''doc-1'' ''q'' 5 (7 / 10)) = Inl ValueError"
  by (simp add: retrieve_relevant_chunks_def example_env_def rank_chunks_def
      cosine_similarity_def example_chunk_def)

text \<open>
  C10, amended. When every non-empty chunk embedding has the query's dimension, the ranking
  step returns a list and does not raise; a chunk with a missing (null or empty) embedding
  is never in it, whatever the threshold; a document with no chunks, or with all chunks
  below the threshold, gives the empty list. When some non-empty chunk embedding has another
  dimension, the ranking step raises \<^verbatim>\<open>ValueError\<close>.
\<close>

theorem rank_chunks_skips_missing_embeddings:
  "(same_dimension q chunks \<longrightarrow>
      (\<exists>r. rank_chunks q chunks k t = Inr r
         \<and> (\<forall>(c, s)\<in>set r. \<exists>e. embedding c = Some e \<and> e \<noteq> [])
         \<and> (chunks = [] \<longrightarrow> r = [])
         \<and> ((\<forall>c\<in>set chunks. \<forall>e s. embedding c = Some e \<longrightarrow> cosine_similarity q e = Inr (Some s)
                \<longrightarrow> s < t) \<longrightarrow> r = [])))
   \<and> (\<not> same_dimension q chunks \<longrightarrow> rank_chunks q chunks k t = Inl ValueError)"
proof (intro conjI impI)
  assume sd: "same_dimension q chunks"
  let ?r = "py_slice_to k (py_sort_reverse snd (scored q t chunks))"
  have sub: "set ?r \<subseteq> set (scored q t chunks)"
    using py_slice_to_subset[of k "py_sort_reverse snd (scored q t chunks)"]
    by (simp add: py_sort_reverse_set)
  have each: "\<forall>(c, s)\<in>set ?r. \<exists>e. embedding c = Some e \<and> e \<noteq> []"
  proof (clarify)
    fix c s assume "(c, s) \<in> set ?r"
    then have "qualifying_score q t c = Some s" using sub by (auto simp: scored_member)
    then show "\<exists>e. embedding c = Some e \<and> e \<noteq> []" using qualifying_scoreD by blast
  qed
  have empty: "chunks = [] \<longrightarrow> ?r = []"
    using sub by (auto simp: scored_Nil)
  have below: "(\<forall>c\<in>set chunks. \<forall>e s. embedding c = Some e \<longrightarrow> cosine_similarity q e = Inr (Some s)
                \<longrightarrow> s < t) \<longrightarrow> ?r = []"
  proof
    assume all: "\<forall>c\<in>set chunks. \<forall>e s. embedding c = Some e \<longrightarrow> cosine_similarity q e = Inr (Some s)
                \<longrightarrow> s < t"
    have "set (scored q t chunks) = {}"
    proof (rule ccontr)
      assume "set (scored q t chunks) \<noteq> {}"
      then obtain c s where "(c, s) \<in> set (scored q t chunks)"
        by (cases "scored q t chunks") auto
      then have "c \<in> set chunks" "qualifying_score q t c = Some s" by (simp_all add: scored_member)
      then show False using all qualifying_scoreD[of q t c s] by force
    qed
    then show "?r = []" using sub by auto
  qed
  show "\<exists>r. rank_chunks q chunks k t = Inr r
         \<and> (\<forall>(c, s)\<in>set r. \<exists>e. embedding c = Some e \<and> e \<noteq> [])
         \<and> (chunks = [] \<longrightarrow> r = [])
         \<and> ((\<forall>c\<in>set chunks. \<forall>e s. embedding c = Some e \<longrightarrow> cosine_similarity q e = Inr (Some s)
                \<longrightarrow> s < t) \<longrightarrow> r = [])"
    using rank_chunks_same_dimension[OF sd, of k t] each empty below by blast
next
  assume "\<not> same_dimension q chunks"
  then show "rank_chunks q chunks k t = Inl ValueError"
    by (rule rank_chunks_wrong_dimension)
qed

lemma unscorable_chunks_eval:
  "rank_chunks [1, 0] unscorable_chunks 5 0 = Inr [(example_chunk ''c3'' 3 ''three'' 1 [1, 0], 1)]"
  by (simp add: rank_chunks_def unscorable_chunks_def example_chunk_def cosine_examples
      py_sort_reverse_def py_slice_to_def)

text \<open>A chunk without embedding, one with an empty embedding and one with the zero vector are
  left out at threshold 0; an empty document gives the empty list; an embedding of dimension
  1 against a query of dimension 2 raises.\<close>

theorem rank_chunks_skips_missing_embeddings_witness:
  "same_dimension [1, 0] unscorable_chunks
   \<and> rank_chunks [1, 0] unscorable_chunks 5 0
       = Inr [(example_chunk ''c3'' 3 ''three'' 1 [1, 0], 1)]
   \<and> rank_chunks [1, 0] [] 5 0 = Inr []
   \<and> \<not> same_dimension [1, 0] [example_chunk ''c1'' 0 ''abc'' 1 [1]]
   \<and> rank_chunks [1, 0] [example_chunk ''c1'' 0 ''abc'' 1 [1]] 5 0 = Inl ValueError"
proof -
  have d: "same_dimension [1, 0] unscorable_chunks"
    by (simp add: same_dimension_def unscorable_chunks_def example_chunk_def)
  have d0: "same_dimension [1, 0] []"
    by (simp add: same_dimension_def)
  have n: "\<not> same_dimension [1, 0] [example_chunk ''c1'' 0 ''abc'' 1 [1]]"
    by (simp add: same_dimension_def example_chunk_def)
  have "rank_chunks [1, 0] [] 5 0 = Inr []"
    using rank_chunks_skips_missing_embeddings[of "[1, 0]" "[]" 5 0] d0 by auto
  moreover have "rank_chunks [1, 0] [example_chunk ''c1'' 0 ''abc'' 1 [1]] 5 0 = Inl ValueError"
    using rank_chunks_skips_missing_embeddings[of "[1, 0]" "[example_chunk ''c1'' 0 ''abc'' 1 [1]]" 5 0] n
    by blast
  ultimately show ?thesis
    using d n unscorable_chunks_eval by simp
qed

subsection \<open>RateLimiter\<close>

lemmas rl_defs = wait_sync_def wait_async_def get_wait_time_def cleanup_old_requests_def
  record_request_def time_time_def sleep_def window_size_def new_rate_limiter_def Let_def

lemma wait_async_eq_wait_sync: "wait_async elapsed rl = wait_sync elapsed rl"
  by (simp add: wait_async_def wait_sync_def)

text \<open>
  C4. The bound fails at the window's boundary. With the limit 1 and a clock that shows the
  same time at successive readings, three acquire calls issued back-to-back record the
  timestamps 0, 60 and 60: the second call waits 60 seconds, and the third is admitted at
  once, because a timestamp exactly 60 seconds old is kept by the cleanup (\<^verbatim>\<open><\<close>) while the
  wait computed from it is 0. Two recorded timestamps are then newer than \<open>now - 60 s\<close>.
\<close>

theorem boundary_admits_requests_beyond_limit:
  "map_sum id (\<lambda>rl. (request_times rl, clock_now rl, requests_in_window rl))
     (acquire_all (\<lambda>n. 0) [False, False, False] (new_rate_limiter 1 0))
   = Inr ([0, 60, 60], 60, 2)"
  by (simp add: rl_defs requests_in_window_def)

text \<open>Away from the boundary the limiter holds its bound: when the clock advances strictly
  from each reading to the next and the limit is at least 1, no acquire call raises and each
  leaves at most \<open>requests_per_minute\<close> timestamps newer than \<open>now - 60 s\<close>.\<close>

lemma dropWhile_sorted_filter:
  fixes xs :: "real list"
  shows "sorted xs \<Longrightarrow> dropWhile (\<lambda>x. x < c) xs = filter (\<lambda>x. c \<le> x) xs"
proof (induction xs)
  case Nil
  then show ?case by simp
next
  case (Cons x xs)
  show ?case
  proof (cases "x < c")
    case True
    then show ?thesis using Cons by simp
  next
    case False
    then have "\<forall>y\<in>set xs. c \<le> y" using Cons.prems by auto
    then have "filter (\<lambda>x. c \<le> x) xs = xs" by (simp add: filter_id_conv)
    then show ?thesis using False by simp
  qed
qed

lemma length_filter_mono:
  "(\<And>x. x \<in> set xs \<Longrightarrow> P x \<Longrightarrow> Q x) \<Longrightarrow> length (filter P xs) \<le> length (filter Q xs)"
  by (induction xs) auto

lemma length_filter_dropWhile:
  "length (filter P (dropWhile Q xs)) \<le> length (filter P xs)"
  by (induction xs) auto

lemma cleanup_fields:
  "request_times (cleanup_old_requests elapsed rl) =
     dropWhile (\<lambda>t. t < clock_now rl + elapsed (clock_reads rl) - 60) (request_times rl)"
  "clock_now (cleanup_old_requests elapsed rl) = clock_now rl + elapsed (clock_reads rl)"
  "clock_reads (cleanup_old_requests elapsed rl) = Suc (clock_reads rl)"
  "requests_per_minute (cleanup_old_requests elapsed rl) = requests_per_minute rl"
  by (simp_all add: cleanup_old_requests_def time_time_def window_size_def Let_def)

lemma record_fields:
  "request_times (record_request elapsed rl) =
     request_times rl @ [clock_now rl + elapsed (clock_reads rl)]"
  "clock_now (record_request elapsed rl) = clock_now rl + elapsed (clock_reads rl)"
  "clock_reads (record_request elapsed rl) = Suc (clock_reads rl)"
  "requests_per_minute (record_request elapsed rl) = requests_per_minute rl"
  by (simp_all add: record_request_def time_time_def Let_def)

text \<open>Recording at time \<open>t4\<close> after a queue \<open>q2\<close> of which at most \<open>m\<close> entries are newer than
  \<open>t4 - 60\<close>.\<close>

lemma record_keeps_inv:
  assumes "sorted (request_times rl)" and "\<forall>t\<in>set (request_times rl). t \<le> clock_now rl"
    and "0 \<le> elapsed (clock_reads rl)"
    and "int (length (filter (\<lambda>t. t > clock_now rl + elapsed (clock_reads rl) - 60)
                 (request_times rl))) + 1 \<le> requests_per_minute rl"
  shows "limiter_inv (record_request elapsed rl)"
proof -
  let ?t = "clock_now rl + elapsed (clock_reads rl)"
  have "sorted (request_times rl @ [?t])"
    using assms(1-3) by (auto simp: sorted_append intro: order_trans)
  moreover have "list_all (\<lambda>t. t \<le> ?t) (request_times rl @ [?t])"
    using assms(2,3) by (auto simp: list_all_iff intro: order_trans)
  ultimately show ?thesis
    using assms(4) by (simp add: limiter_inv_def record_fields requests_in_window_def window_size_def)
qed

lemma wait_sync_keeps_limit:
  assumes pos: "\<forall>n. 0 < elapsed n" and R: "1 \<le> requests_per_minute rl" and inv: "limiter_inv rl"
  shows "\<exists>rl'. wait_sync elapsed rl = Inr rl' \<and> limiter_inv rl'
           \<and> requests_per_minute rl' = requests_per_minute rl"
proof -
  let ?q = "request_times rl"
  let ?now = "clock_now rl"
  let ?n = "clock_reads rl"
  let ?t1 = "?now + elapsed ?n"
  let ?rl1 = "cleanup_old_requests elapsed rl"
  let ?q1 = "request_times ?rl1"
  have sorted_q: "sorted ?q" and le_now: "\<forall>t\<in>set ?q. t \<le> ?now"
    and win: "int (length (filter (\<lambda>t. t > ?now - 60) ?q)) \<le> requests_per_minute rl"
    using inv by (simp_all add: limiter_inv_def list_all_iff requests_in_window_def window_size_def)
  have e0: "0 < elapsed ?n" and e1: "0 < elapsed (Suc ?n)" and e2: "0 < elapsed (Suc (Suc ?n))"
    and e3: "0 < elapsed (Suc (Suc (Suc ?n)))"
    using pos by simp_all
  have q1: "?q1 = filter (\<lambda>x. ?t1 - 60 \<le> x) ?q"
    by (simp add: cleanup_fields dropWhile_sorted_filter[OF sorted_q])
  have sorted_q1: "sorted ?q1" unfolding q1 using sorted_q by (rule sorted_wrt_filter)
  have le_q1: "\<forall>t\<in>set ?q1. t \<le> ?now" using le_now by (simp add: q1)
  have "length ?q1 \<le> length (filter (\<lambda>t. t > ?now - 60) ?q)"
    unfolding q1 using e0 by (intro length_filter_mono) simp
  then have len_q1: "int (length ?q1) \<le> requests_per_minute rl"
    using win by linarith
  show ?thesis
  proof (cases "int (length ?q1) < requests_per_minute rl")
    case True
    then have ws: "wait_sync elapsed rl = Inr (record_request elapsed ?rl1)"
      by (simp add: wait_sync_def get_wait_time_def Let_def cleanup_fields)
    have "int (length (filter (\<lambda>t. t > clock_now ?rl1 + elapsed (clock_reads ?rl1) - 60) ?q1)) + 1
            \<le> requests_per_minute ?rl1"
      using True length_filter_le[of _ ?q1]
      by (smt (verit) cleanup_fields(4) of_nat_mono)
    moreover have "\<forall>t\<in>set ?q1. t \<le> clock_now ?rl1"
      using le_q1 e0 by (auto simp: cleanup_fields(2) intro: order_trans)
    moreover have "0 \<le> elapsed (clock_reads ?rl1)"
      using e1 by (simp add: cleanup_fields)
    ultimately have "limiter_inv (record_request elapsed ?rl1)"
      using sorted_q1 by (intro record_keeps_inv) simp_all
    then show ?thesis
      using ws by (simp add: record_fields cleanup_fields)
  next
    case False
    then have full: "int (length ?q1) = requests_per_minute rl" using len_q1 by simp
    then obtain d0 rest where q1c: "?q1 = d0 # rest"
      using R by (cases ?q1) auto
    have rest_len: "int (length rest) + 1 \<le> requests_per_minute rl"
      using full q1c by simp
    let ?t2 = "?t1 + elapsed (Suc ?n)"
    let ?w = "max 0 (d0 + 60 - ?t2)"
    let ?rl2 = "?rl1\<lparr>clock_now := ?t2, clock_reads := Suc (Suc ?n)\<rparr>"
    have gw: "get_wait_time elapsed rl = Inr (?w, ?rl2)"
      using False q1c
      by (simp add: get_wait_time_def Let_def cleanup_fields time_time_def window_size_def)
    have d0_le: "d0 \<le> ?now" using le_q1 q1c by simp
    have newer: "length (filter (\<lambda>t. t > c) (d0 # rest)) \<le> length rest" if "d0 \<le> c" for c
      using that length_filter_le[of "\<lambda>t. t > c" rest] by simp
    show ?thesis
    proof (cases "?w > 0")
      case True
      let ?rl3 = "cleanup_old_requests elapsed (sleep ?w ?rl2)"
      have ws: "wait_sync elapsed rl = Inr (record_request elapsed ?rl3)"
        using gw True by (simp add: wait_sync_def Let_def)
      have w: "?w = d0 + 60 - ?t2" using True by simp
      have now3: "clock_now ?rl3 = d0 + 60 + elapsed (Suc (Suc ?n))"
        using w by (simp add: cleanup_fields sleep_def)
      have reads3: "clock_reads ?rl3 = Suc (Suc (Suc ?n))"
        by (simp add: cleanup_fields sleep_def)
      have q3: "request_times ?rl3 =
          dropWhile (\<lambda>t. t < d0 + 60 + elapsed (Suc (Suc ?n)) - 60) (d0 # rest)"
        using w q1c by (simp add: cleanup_fields sleep_def)
      have rpm3: "requests_per_minute ?rl3 = requests_per_minute rl"
        by (simp add: cleanup_fields sleep_def)
      have sorted3: "sorted (request_times ?rl3)"
        unfolding q3 using sorted_q1 q1c by (metis sorted_dropWhile)
      have set3: "set (request_times ?rl3) \<subseteq> set ?q1"
        unfolding q3 q1c by (rule set_dropWhileD[THEN subsetI])
      have le3: "\<forall>t\<in>set (request_times ?rl3). t \<le> clock_now ?rl3"
      proof
        fix t assume "t \<in> set (request_times ?rl3)"
        then have "t \<le> ?now" using set3 le_q1 by blast
        moreover have "?now < d0 + 60" using True e0 e1 by simp
        ultimately show "t \<le> clock_now ?rl3" using e2 by (simp add: now3)
      qed
      have "length (filter (\<lambda>t. t > clock_now ?rl3 + elapsed (clock_reads ?rl3) - 60)
                (request_times ?rl3))
            \<le> length (filter (\<lambda>t. t > clock_now ?rl3 + elapsed (clock_reads ?rl3) - 60) (d0 # rest))"
        unfolding q3 by (rule length_filter_dropWhile)
      also have "\<dots> \<le> length rest"
        using e2 e3 by (intro newer) (simp add: now3 reads3)
      finally have "int (length (filter (\<lambda>t. t > clock_now ?rl3 + elapsed (clock_reads ?rl3) - 60)
                (request_times ?rl3))) + 1 \<le> requests_per_minute ?rl3"
        using rest_len rpm3 by linarith
      moreover have "0 \<le> elapsed (clock_reads ?rl3)"
        using e3 by (simp add: reads3)
      ultimately have "limiter_inv (record_request elapsed ?rl3)"
        using sorted3 le3 by (intro record_keeps_inv)
      then show ?thesis
        using ws rpm3 by (simp add: record_fields)
    next
      case noWait: False
      then have ws: "wait_sync elapsed rl = Inr (record_request elapsed ?rl2)"
        using gw by (simp add: wait_sync_def Let_def)
      have expired: "d0 + 60 \<le> ?t2" using noWait by simp
      have q2: "request_times ?rl2 = d0 # rest" using q1c by simp
      have "length (filter (\<lambda>t. t > clock_now ?rl2 + elapsed (clock_reads ?rl2) - 60)
                (request_times ?rl2)) \<le> length rest"
        unfolding q2 using expired e2 by (intro newer) simp
      then have "int (length (filter (\<lambda>t. t > clock_now ?rl2 + elapsed (clock_reads ?rl2) - 60)
                (request_times ?rl2))) + 1 \<le> requests_per_minute ?rl2"
        using rest_len by (simp add: cleanup_fields)
      moreover have "sorted (request_times ?rl2)" using sorted_q1 by simp
      moreover have "\<forall>t\<in>set (request_times ?rl2). t \<le> clock_now ?rl2"
        using le_q1 e0 e1 by (auto intro: order_trans)
      moreover have "0 \<le> elapsed (clock_reads ?rl2)" using e2 by simp
      ultimately have "limiter_inv (record_request elapsed ?rl2)"
        by (intro record_keeps_inv)
      then show ?thesis
        using ws by (simp add: record_fields cleanup_fields)
    qed
  qed
qed

lemma acquire_all_keeps_limit:
  assumes "\<forall>n. 0 < elapsed n" and "1 \<le> requests_per_minute rl" and "limiter_inv rl"
  shows "\<exists>rl'. acquire_all elapsed calls rl = Inr rl' \<and> limiter_inv rl'
           \<and> requests_per_minute rl' = requests_per_minute rl"
  using assms(2,3)
proof (induction calls arbitrary: rl)
  case Nil
  then show ?case by simp
next
  case (Cons is_async rest)
  obtain rl1 where step: "wait_sync elapsed rl = Inr rl1" and inv1: "limiter_inv rl1"
    and rpm1: "requests_per_minute rl1 = requests_per_minute rl"
    using wait_sync_keeps_limit[OF assms(1) Cons.prems] by blast
  have "1 \<le> requests_per_minute rl1" using Cons.prems(1) rpm1 by simp
  from Cons.IH[OF this inv1] obtain rl' where
    "acquire_all elapsed rest rl1 = Inr rl'" "limiter_inv rl'"
    "requests_per_minute rl' = requests_per_minute rl1"
    by blast
  then show ?case
    using step rpm1 by (simp add: wait_async_eq_wait_sync)
qed

lemma fresh_limiter_keeps_limit:
  assumes "\<forall>n. 0 < elapsed n" and "1 \<le> rpm"
  shows "\<exists>rl'. acquire_all elapsed calls (new_rate_limiter rpm t0) = Inr rl'
           \<and> int (requests_in_window rl') \<le> rpm"
proof -
  have "limiter_inv (new_rate_limiter rpm t0)"
    using assms(2) by (simp add: limiter_inv_def new_rate_limiter_def requests_in_window_def)
  moreover have "1 \<le> requests_per_minute (new_rate_limiter rpm t0)"
    using assms(2) by (simp add: new_rate_limiter_def)
  ultimately obtain rl' where "acquire_all elapsed calls (new_rate_limiter rpm t0) = Inr rl'"
    "limiter_inv rl'" "requests_per_minute rl' = requests_per_minute (new_rate_limiter rpm t0)"
    using acquire_all_keeps_limit[OF assms(1)] by blast
  then show ?thesis
    by (auto simp: limiter_inv_def new_rate_limiter_def)
qed

end
